theory Spec2Isabelle
  imports Complex_Main
begin

section \<open>JavaScript values\<close>

text \<open>
  The library handles loosely typed JavaScript values: the configuration object, the
  address fields, and the tree that xml2js builds from the response body. They are
  modelled by one datatype. An object is an association list in insertion order (lookup
  takes the first entry of a key). A number is finite, and then the rational it stands
  for, or one of the infinities, or NaN. Strings are lists of 8-bit characters, read as
  the code points U+0000 to U+00FF.
\<close>

datatype jsnum = Num rat | PlusInf | MinusInf | NotANumber

datatype jsval =
    JUndefined
  | JNull
  | JBool bool
  | JNum jsnum
  | JStr string
  | JArr "jsval list"
  | JObj "(string \<times> jsval) list"

datatype exn = TypeError

text \<open>JavaScript's ToBoolean, as used by \<open>if (x)\<close>, \<open>!x\<close>, \<open>x || y\<close>, \<open>x && y\<close> and \<open>x ? y : z\<close>.\<close>

fun truthy :: "jsval \<Rightarrow> bool" where
  "truthy JUndefined = False"
| "truthy JNull = False"
| "truthy (JBool b) = b"
| "truthy (JNum x) = (x \<noteq> Num 0 \<and> x \<noteq> NotANumber)"
| "truthy (JStr s) = (s \<noteq> [])"
| "truthy (JArr xs) = True"
| "truthy (JObj kvs) = True"

definition js_or :: "jsval \<Rightarrow> jsval \<Rightarrow> jsval" where
  "js_or a b = (if truthy a then a else b)"

subsection \<open>Characters, digits and white space\<close>

definition is_digit :: "char \<Rightarrow> bool" where
  "is_digit c = (48 \<le> (of_char c :: nat) \<and> (of_char c :: nat) \<le> 57)"

definition digit_val :: "char \<Rightarrow> nat" where
  "digit_val c = of_char c - 48"

definition digit_char :: "nat \<Rightarrow> char" where
  "digit_char d = char_of (48 + d)"

definition nat_of_digits :: "string \<Rightarrow> nat" where
  "nat_of_digits ds = foldl (\<lambda>a c. 10 * a + digit_val c) 0 ds"

text \<open>
  The white space that \<open>String.prototype.trim\<close> and \<open>parseInt\<close> strip, among the code
  points below U+0100: tab, line feed, vertical tab, form feed, carriage return, space
  and the no-break space.
\<close>

definition is_ws :: "char \<Rightarrow> bool" where
  "is_ws c = ((of_char c :: nat) \<in> {9, 10, 11, 12, 13, 32, 160})"

definition trim :: "string \<Rightarrow> string" where
  "trim s = rev (dropWhile is_ws (rev (dropWhile is_ws s)))"

subsection \<open>Property access\<close>

text \<open>
  A property key that is a canonical array index: \<open>0\<close>, or digits with no leading zero.
\<close>

definition index_of_key :: "string \<Rightarrow> nat option" where
  "index_of_key k =
     (if k = ''0'' then Some 0
      else if k \<noteq> [] \<and> list_all is_digit k \<and> hd k \<noteq> CHR ''0'' then Some (nat_of_digits k)
      else None)"

text \<open>
  \<open>v[k]\<close> and \<open>v.k\<close>. Reading a property of \<open>undefined\<close> or \<open>null\<close> throws a TypeError.
  Own properties are modelled: the entries of an object, the cells and the length of an
  array or a string. Inherited members (methods of the prototypes) are not values of
  this model; none of the keys the library reads (Error, Description, message, 0, the
  four result paths and the reshaped field names) names one.
\<close>

fun get_key :: "jsval \<Rightarrow> string \<Rightarrow> exn + jsval" where
  "get_key JUndefined k = Inl TypeError"
| "get_key JNull k = Inl TypeError"
| "get_key (JBool b) k = Inr JUndefined"
| "get_key (JNum n) k = Inr JUndefined"
| "get_key (JStr s) k =
     (case index_of_key k of
        Some i \<Rightarrow> Inr (if i < length s then JStr [s ! i] else JUndefined)
      | None \<Rightarrow> Inr (if k = ''length'' then JNum (Num (of_nat (length s))) else JUndefined))"
| "get_key (JArr xs) k =
     (case index_of_key k of
        Some i \<Rightarrow> Inr (if i < length xs then xs ! i else JUndefined)
      | None \<Rightarrow> Inr (if k = ''length'' then JNum (Num (of_nat (length xs))) else JUndefined))"
| "get_key (JObj kvs) k = Inr (case map_of kvs k of Some v \<Rightarrow> v | None \<Rightarrow> JUndefined)"

text \<open>Sequencing of steps that may throw: the first exception ends the evaluation.\<close>

definition and_then :: "exn + 'a \<Rightarrow> ('a \<Rightarrow> exn + 'b) \<Rightarrow> exn + 'b" where
  "and_then m f = (case m of Inl e \<Rightarrow> Inl e | Inr x \<Rightarrow> f x)"

text \<open>\<open>v.k[0]\<close>, as in \<open>address.City[0]\<close>.\<close>

definition first_of :: "jsval \<Rightarrow> string \<Rightarrow> exn + jsval" where
  "first_of v k = and_then (get_key v k) (\<lambda>x. get_key x ''0'')"

text \<open>
  \<open>x.trim()\<close>: a string has the method; on any other value of a parsed tree the call
  throws (reading a property of \<open>undefined\<close>, or calling what is not a function).
\<close>

fun call_trim :: "jsval \<Rightarrow> exn + jsval" where
  "call_trim (JStr s) = Inr (JStr (trim s))"
| "call_trim v = Inl TypeError"

subsection \<open>Conversion to strings\<close>

function show_nat :: "nat \<Rightarrow> string" where
  "show_nat n = (if n < 10 then [digit_char n] else show_nat (n div 10) @ [digit_char (n mod 10)])"
  by pat_completeness auto
termination
  by (relation "measure id") auto

declare show_nat.simps [simp del]

definition show_int :: "int \<Rightarrow> string" where
  "show_int i = (if i < 0 then CHR ''-'' # show_nat (nat (- i)) else show_nat (nat i))"

fun join_comma :: "string list \<Rightarrow> string" where
  "join_comma [] = []"
| "join_comma [s] = s"
| "join_comma (s # t # ss) = s @ CHR '','' # join_comma (t # ss)"

text \<open>
  What the JavaScript engine does with floating-point numbers is not part of the
  library, and a parameter of the model: how a finite number is printed
  (Number::toString), and which number stands for an integer that \<open>parseInt\<close> has read
  (the nearest double, an infinity when the integer is too large). The theorems ask no
  more of the two than what holds of every engine: see \<open>safe_integers\<close> and
  \<open>plain_fractions\<close> below.
\<close>

record runtime =
  number_text :: "rat \<Rightarrow> string"
  number_value :: "int \<Rightarrow> jsnum"

text \<open>
  JavaScript's ToString on these values (an array joins its cells with commas, an empty
  or null cell giving the empty string).
\<close>

fun ToString :: "runtime \<Rightarrow> jsval \<Rightarrow> string" where
  "ToString rt JUndefined = ''undefined''"
| "ToString rt JNull = ''null''"
| "ToString rt (JBool b) = (if b then ''true'' else ''false'')"
| "ToString rt (JNum (Num x)) = number_text rt x"
| "ToString rt (JNum PlusInf) = ''Infinity''"
| "ToString rt (JNum MinusInf) = ''-Infinity''"
| "ToString rt (JNum NotANumber) = ''NaN''"
| "ToString rt (JStr s) = s"
| "ToString rt (JArr xs) =
     join_comma (map (\<lambda>x. if x = JUndefined \<or> x = JNull then [] else ToString rt x) xs)"
| "ToString rt (JObj kvs) = ''[object Object]''"

section \<open>callUSPS\<close>

subsection \<open>Errors and completions\<close>

text \<open>
  \<open>new USPSError(message, additions...)\<close>. The constructor lives in error.js, which is
  not among the sources: the model records the arguments the call site passes.
\<close>

datatype usps_error = USPSError (err_message: jsval) (err_additions: "jsval list")

text \<open>The first argument of a completion callback: a plain value (\<open>null\<close>) or an error.\<close>

datatype cbval = Val jsval | Err usps_error

fun cb_truthy :: "cbval \<Rightarrow> bool" where
  "cb_truthy (Val v) = truthy v"
| "cb_truthy (Err e) = True"

text \<open>
  What has happened once the response has been handled: the calls of the caller's
  callback, in order, each with its two arguments (an argument the call leaves out is
  \<open>undefined\<close>), and the exception that escaped, if one did.
\<close>

type_synonym completion = "(cbval \<times> jsval) list \<times> exn option"

type_synonym callback = "cbval \<Rightarrow> jsval \<Rightarrow> completion"

definition throw :: "exn \<Rightarrow> completion" where
  "throw e = ([], Some e)"

text \<open>A callback that only records that it was called, and with what.\<close>

definition record_call :: callback where
  "record_call e v = ([(e, v)], None)"

text \<open>
  What the transport and the XML parser hand to their callbacks: the error of
  \<open>request\<close>; and, for the body received, the error and the result of
  \<open>xml2js.parseString\<close>. The network, that is the transport, the service behind it and
  the parser, is a function from the request sent to such a reply.
\<close>

record reply =
  req_err :: jsval
  parse_err :: jsval
  parsed :: jsval

subsection \<open>The dotted path\<close>

text \<open>\<open>resultDotNotation.split('.')\<close>: never empty; the empty string gives one empty key.\<close>

fun split_dots :: "string \<Rightarrow> string list" where
  "split_dots [] = [[]]"
| "split_dots (c # cs) =
     (if c = CHR ''.'' then [] # split_dots cs
      else (case split_dots cs of w # ws \<Rightarrow> (c # w) # ws | [] \<Rightarrow> [[c]]))"

text \<open>\<open>if (Array.isArray(specificResult)) specificResult = specificResult[0]\<close>\<close>

fun first_cell :: "jsval \<Rightarrow> jsval" where
  "first_cell (JArr []) = JUndefined"
| "first_cell (JArr (x # xs)) = x"
| "first_cell v = v"

text \<open>
  \<open>walkResult\<close>: the recursion on \<open>parts\<close>, with \<open>specificResult\<close> as an argument.
  It ends when \<open>parts.shift()\<close> finds no key left.
\<close>

fun walkResult :: "jsval \<Rightarrow> string list \<Rightarrow> exn + jsval" where
  "walkResult specificResult [] = Inr specificResult"
| "walkResult specificResult (key # parts) =
     (case get_key specificResult key of
        Inl e \<Rightarrow> Inl e
      | Inr r \<Rightarrow> walkResult (first_cell r) parts)"

subsection \<open>The two error messages\<close>

text \<open>
  \<open>try { errMessage = result.Error.Description[0].trim(); } catch(err) { errMessage = result.Error; }\<close>
\<close>

definition root_errMessage :: "jsval \<Rightarrow> jsval" where
  "root_errMessage e =
     (case and_then (first_of e ''Description'') call_trim of
        Inr m \<Rightarrow> m
      | Inl x \<Rightarrow> e)"

text \<open>
  \<open>try { errMessage = specificResult.Error[0].Description[0].trim(); } catch(err) { errMessage = specificResult.Error; }\<close>
\<close>

definition node_errMessage :: "jsval \<Rightarrow> jsval" where
  "node_errMessage e =
     (case and_then (and_then (get_key e ''0'') (\<lambda>e0. first_of e0 ''Description'')) call_trim of
        Inr m \<Rightarrow> m
      | Inl x \<Rightarrow> e)"

subsection \<open>The request\<close>

text \<open>
  The first half of \<open>callUSPS\<close>.
  \<open>obj[method] = params; obj[method]['@USERID'] = config.userId\<close> is the tree given to the
  XML builder; \<open>opts\<close> are the options given to \<open>request\<close>. Reading the three properties
  of \<open>config\<close> throws when \<open>config\<close> is \<open>undefined\<close> or \<open>null\<close>. The builder and the
  transport are external and taken to return normally: the model records the tree that
  is handed to the builder, and goes on from what the transport and the parser answer.
\<close>

record 'p envelope =
  root_name :: string
  userid :: jsval
  body :: 'p

record 'p http_request =
  req_url :: jsval
  req_API :: string
  req_XML :: "'p envelope"
  req_timeout :: jsval

definition request_opts :: "string \<Rightarrow> string \<Rightarrow> jsval \<Rightarrow> 'p \<Rightarrow> exn + 'p http_request" where
  "request_opts api method config params =
     and_then (get_key config ''userId'') (\<lambda>uid.
     and_then (get_key config ''server'') (\<lambda>server.
     and_then (get_key config ''ttl'') (\<lambda>ttl.
       Inr \<lparr>req_url = server, req_API = api,
            req_XML = \<lparr>root_name = method, userid = uid, body = params\<rparr>,
            req_timeout = ttl\<rparr>)))"

subsection \<open>Handling the response\<close>

text \<open>
  The callback that \<open>callUSPS\<close> gives to \<open>xml2js.parseString\<close>, called with the parser's
  error and result: the parse error, the root-level error, the walk, the error of the
  node, the success. Each \<open>callback(...); return;\<close> ends the handling with that call.
\<close>

definition on_parsed :: "string \<Rightarrow> string \<Rightarrow> callback \<Rightarrow> jsval \<Rightarrow> jsval \<Rightarrow> completion" where
  "on_parsed api resultDotNotation callback err result =
     (if truthy err then
        (case get_key err ''message'' of
           Inl e \<Rightarrow> throw e
         | Inr m \<Rightarrow>
             callback (Err (USPSError m
               [err, JObj [(''method'', JStr api), (''during'', JStr ''xml parse'')]])) JUndefined)
      else
        (case get_key result ''Error'' of
           Inl e \<Rightarrow> throw e
         | Inr rootError \<Rightarrow>
             if truthy rootError then
               callback (Err (USPSError (root_errMessage rootError) [rootError])) JUndefined
             else
               (case walkResult result (split_dots resultDotNotation) of
                  Inl e \<Rightarrow> throw e
                | Inr specificResult \<Rightarrow>
                    (case get_key specificResult ''Error'' of
                       Inl e \<Rightarrow> throw e
                     | Inr nodeError \<Rightarrow>
                         if truthy nodeError then
                           callback (Err (USPSError (node_errMessage nodeError) [nodeError])) JUndefined
                         else callback (Val JNull) specificResult))))"

text \<open>
  The callback that \<open>callUSPS\<close> gives to \<open>request\<close>: the transport error, or else the
  parsing of the body. The parser is taken to call back once, with the error and the
  result that the reply records.
\<close>

definition on_response :: "string \<Rightarrow> string \<Rightarrow> callback \<Rightarrow> reply \<Rightarrow> completion" where
  "on_response api resultDotNotation callback r =
     (if truthy (req_err r) then
        (case get_key (req_err r) ''message'' of
           Inl e \<Rightarrow> throw e
         | Inr m \<Rightarrow>
             callback (Err (USPSError m
               [req_err r, JObj [(''method'', JStr api), (''during'', JStr ''request'')]])) JUndefined)
      else on_parsed api resultDotNotation callback (parse_err r) (parsed r))"

text \<open>
  \<open>callUSPS\<close>: it throws while it builds the request, or it sends the request and
  returns; the response is handled later. The result holds the request sent and what
  the handling of the network's reply to that request comes to.
\<close>

definition callUSPS ::
  "string \<Rightarrow> string \<Rightarrow> string \<Rightarrow> jsval \<Rightarrow> 'p \<Rightarrow> callback \<Rightarrow> ('p http_request \<Rightarrow> reply)
     \<Rightarrow> exn + ('p http_request \<times> completion)" where
  "callUSPS api method resultDotNotation config params callback network =
     and_then (request_opts api method config params) (\<lambda>opts.
       Inr (opts, on_response api resultDotNotation callback (network opts)))"

section \<open>The client and its operations\<close>

subsection \<open>Construction\<close>

record client =
  config :: jsval

text \<open>\<open>config.ttl = 100000\<close>: the entry is replaced where it stands, or added last.\<close>

fun set_entry :: "string \<Rightarrow> jsval \<Rightarrow> (string \<times> jsval) list \<Rightarrow> (string \<times> jsval) list" where
  "set_entry k v [] = [(k, v)]"
| "set_entry k v ((k', v') # kvs) =
     (if k' = k then (k, v) # kvs else (k', v') # set_entry k v kvs)"

text \<open>An assignment to a property of a primitive value has no effect.\<close>

fun set_key :: "jsval \<Rightarrow> string \<Rightarrow> jsval \<Rightarrow> jsval" where
  "set_key (JObj kvs) k v = JObj (set_entry k v kvs)"
| "set_key c k v = c"

definition has_truthy :: "jsval \<Rightarrow> string \<Rightarrow> bool" where
  "has_truthy c k = (case get_key c k of Inr v \<Rightarrow> truthy v | Inl e \<Rightarrow> False)"

text \<open>
  The constructor: it throws the string, or stores the configuration (the caller's
  object, with \<open>ttl\<close> set when it was not truthy) in the new instance.
\<close>

definition usps :: "jsval \<Rightarrow> string + client" where
  "usps cfg =
     (if \<not> (truthy cfg \<and> has_truthy cfg ''server'' \<and> has_truthy cfg ''userId'') then
        Inl ''Error: must pass usps server url and userId''
      else
        Inr \<lparr>config = (if \<not> has_truthy cfg ''ttl'' then set_key cfg ''ttl'' (JNum (Num 100000)) else cfg)\<rparr>)"

subsection \<open>What an operation gives\<close>

text \<open>What the call of an operation returns to its caller: \<open>this\<close>, or nothing.\<close>

datatype retval = RetThis client | RetUndefined

text \<open>
  An operation as a whole gives the exception it threw before it could send the request
  (reading a field of an address that is \<open>undefined\<close> or \<open>null\<close>, or a property of
  such a configuration), or else: the value it returned, the request it sent, and what
  the handling of the network's reply to that request comes to.
\<close>

record 'p outcome =
  op_returned :: retval
  op_sent :: "'p http_request"
  op_completion :: completion

subsection \<open>verify\<close>

text \<open>
  The object literal \<open>obj\<close>. The address is whatever value the caller passes; its
  fields are read in the order of the literal.
\<close>

definition verify_params :: "jsval \<Rightarrow> exn + jsval" where
  "verify_params address =
     and_then (get_key address ''street2'') (\<lambda>street2.
     and_then (get_key address ''street1'') (\<lambda>street1.
     and_then (get_key address ''city'') (\<lambda>city.
     and_then (get_key address ''state'') (\<lambda>state.
     and_then (get_key address ''zip'') (\<lambda>zipcode.
       Inr (JObj [(''Address'', JObj
         [(''Address1'', js_or street2 (JStr [])),
          (''Address2'', street1),
          (''City'', city),
          (''State'', state),
          (''Zip5'', zipcode),
          (''Zip4'', JStr [])])]))))))"

text \<open>The object literal of the success branch; its fields are evaluated in order.\<close>

definition verify_reshape :: "jsval \<Rightarrow> exn + jsval" where
  "verify_reshape a =
     and_then (first_of a ''Address2'') (\<lambda>s1.
     and_then (get_key a ''Address1'') (\<lambda>a1.
     and_then (if truthy a1 then get_key a1 ''0'' else Inr (JStr [])) (\<lambda>s2.
     and_then (first_of a ''City'') (\<lambda>c.
     and_then (first_of a ''Zip5'') (\<lambda>z.
     and_then (first_of a ''State'') (\<lambda>st.
       Inr (JObj [(''street1'', s1), (''street2'', s2), (''city'', c), (''zip'', z), (''state'', st)])))))))"

text \<open>The function that \<open>verify\<close> gives to \<open>callUSPS\<close> as its callback.\<close>

definition verify_done :: "callback \<Rightarrow> callback" where
  "verify_done callback err node =
     (if cb_truthy err then callback err JUndefined
      else (case verify_reshape node of
              Inl e \<Rightarrow> throw e
            | Inr v \<Rightarrow> callback (Val JNull) v))"

definition verify ::
  "client \<Rightarrow> jsval \<Rightarrow> callback \<Rightarrow> (jsval http_request \<Rightarrow> reply) \<Rightarrow> exn + jsval outcome" where
  "verify self address callback network =
     and_then (verify_params address) (\<lambda>obj.
     and_then
       (callUSPS ''Verify'' ''AddressValidateRequest'' ''AddressValidateResponse.Address''
         (config self) obj (verify_done callback) network)
       (\<lambda>sent. Inr \<lparr>op_returned = RetThis self, op_sent = fst sent, op_completion = snd sent\<rparr>))"

subsection \<open>zipCodeLookup\<close>





subsection \<open>cityStateLookup\<close>

definition cityStateLookup_params :: "jsval \<Rightarrow> jsval" where
  "cityStateLookup_params zipcode = JObj [(''ZipCode'', JObj [(''Zip5'', zipcode)])]"

definition cityStateLookup_reshape :: "jsval \<Rightarrow> exn + jsval" where
  "cityStateLookup_reshape a =
     and_then (first_of a ''City'') (\<lambda>c.
     and_then (first_of a ''State'') (\<lambda>st.
     and_then (first_of a ''Zip5'') (\<lambda>z.
       Inr (JObj [(''city'', c), (''state'', st), (''zip'', z)]))))"

text \<open>
  The function that \<open>cityStateLookup\<close> gives to \<open>callUSPS\<close> as its callback: the success
  branch passes \<open>err\<close> on (a value that is not truthy).
\<close>

definition cityStateLookup_done :: "callback \<Rightarrow> callback" where
  "cityStateLookup_done callback err node =
     (if cb_truthy err then callback err JUndefined
      else (case cityStateLookup_reshape node of
              Inl e \<Rightarrow> throw e
            | Inr v \<Rightarrow> callback err v))"

definition cityStateLookup ::
  "client \<Rightarrow> jsval \<Rightarrow> callback \<Rightarrow> (jsval http_request \<Rightarrow> reply) \<Rightarrow> exn + jsval outcome" where
  "cityStateLookup self zipcode callback network =
     and_then
       (callUSPS ''CityStateLookup'' ''CityStateLookupRequest'' ''CityStateLookupResponse.ZipCode''
         (config self) (cityStateLookup_params zipcode) (cityStateLookup_done callback) network)
       (\<lambda>sent. Inr \<lparr>op_returned = RetUndefined, op_sent = fst sent, op_completion = snd sent\<rparr>)"

subsection \<open>RateV4Request\<close>








section \<open>Notions of the specification\<close>

text \<open>An object has an entry of its own under the key.\<close>

fun has_key :: "jsval \<Rightarrow> string \<Rightarrow> bool" where
  "has_key (JObj kvs) k = (map_of kvs k \<noteq> None)"
| "has_key v k = False"

text \<open>\<open>v[k]\<close> where it does not throw.\<close>

definition read_key :: "jsval \<Rightarrow> string \<Rightarrow> jsval" where
  "read_key v k = (case get_key v k of Inr x \<Rightarrow> x | Inl e \<Rightarrow> JUndefined)"

text \<open>
  Modelled from the spec: error.js, which defines the \<open>USPSError\<close> constructor, is not
  among the sources. The specification's Domain Error carries a message that is a string:
  the trimmed description, or else the error node stringified. The message is read here
  as the stringification of the constructor's first argument; how a node is stringified
  is a parameter, of which the theorems only ask that it leaves a string as it is.
\<close>

definition domain_message :: "(jsval \<Rightarrow> string) \<Rightarrow> usps_error \<Rightarrow> string" where
  "domain_message stringify e = stringify (err_message e)"

text \<open>
  The string at \<open>Error.Description[0]\<close> of a root-level error node, and the one at
  \<open>Error[0].Description[0]\<close> of the error entry of a result node, where that path leads
  to a string.
\<close>

definition root_description :: "jsval \<Rightarrow> string option" where
  "root_description e =
     (case first_of e ''Description'' of
        Inr (JStr s) \<Rightarrow> Some s
      | _ \<Rightarrow> None)"

definition node_description :: "jsval \<Rightarrow> string option" where
  "node_description e =
     (case and_then (get_key e ''0'') (\<lambda>e0. first_of e0 ''Description'') of
        Inr (JStr s) \<Rightarrow> Some s
      | _ \<Rightarrow> None)"




text \<open>
  The shape xml2js (an external library, under the options the source uses) gives an
  element of the document: its text when it has nothing else; otherwise an object with
  the attributes under \<open>$\<close>, the text under \<open>_\<close>, and under each child element name the
  non-empty sequence of the children of that name, singletons included.
\<close>

fun is_cells :: "jsval \<Rightarrow> bool" where
  "is_cells (JArr (x # xs)) = True"
| "is_cells v = False"

fun element_node :: "jsval \<Rightarrow> bool" where
  "element_node (JStr s) = True"
| "element_node (JObj kvs) =
     list_all (\<lambda>kv. fst kv = ''$'' \<or> fst kv = ''_'' \<or> is_cells (snd kv)) kvs"
| "element_node v = False"

text \<open>
  A response that echoes a request tree, as the parser presents it: every entry of an
  object becomes the singleton sequence of the echoed entry, every other value its text.
  The echoing network answers every request with the echo of the tree sent, under the
  given response element.
\<close>

fun echoed :: "runtime \<Rightarrow> jsval \<Rightarrow> jsval" where
  "echoed rt (JObj kvs) = JObj (map (\<lambda>kv. (fst kv, JArr [echoed rt (snd kv)])) kvs)"
| "echoed rt v = JStr (ToString rt v)"

definition echo_network :: "runtime \<Rightarrow> string \<Rightarrow> jsval http_request \<Rightarrow> reply" where
  "echo_network rt response q =
     \<lparr>req_err = JNull, parse_err = JNull,
      parsed = JObj [(response, echoed rt (body (req_XML q)))]\<rparr>"




text \<open>A response that came through the transport and the parser without an error.\<close>

definition answered :: "reply \<Rightarrow> bool" where
  "answered r = (\<not> truthy (req_err r) \<and> \<not> truthy (parse_err r))"


text \<open>The keys of a path put together again, with a dot between them.\<close>

fun join_dots :: "string list \<Rightarrow> string" where
  "join_dots [] = []"
| "join_dots [k] = k"
| "join_dots (k # k' # ks) = k @ CHR ''.'' # join_dots (k' # ks)"

text \<open>
  The request that \<open>callUSPS\<close> sends for a configuration that is an object, as the
  constructor leaves it.
\<close>

definition request_for :: "string \<Rightarrow> string \<Rightarrow> jsval \<Rightarrow> 'p \<Rightarrow> 'p http_request" where
  "request_for api method cfg params =
     \<lparr>req_url = read_key cfg ''server'', req_API = api,
      req_XML = \<lparr>root_name = method, userid = read_key cfg ''userId'', body = params\<rparr>,
      req_timeout = read_key cfg ''ttl''\<rparr>"

text \<open>
  The parts of what an operation gives: the value it returned and the request it sent
  (none when it threw before sending), and what the handling of the reply came to (no
  call and the exception, when it threw before sending).
\<close>

definition returned :: "exn + 'p outcome \<Rightarrow> retval option" where
  "returned x = (case x of Inl e \<Rightarrow> None | Inr out \<Rightarrow> Some (op_returned out))"

definition sent_of :: "exn + 'p outcome \<Rightarrow> 'p http_request option" where
  "sent_of x = (case x of Inl e \<Rightarrow> None | Inr out \<Rightarrow> Some (op_sent out))"

definition completion_of :: "exn + 'p outcome \<Rightarrow> completion" where
  "completion_of x = (case x of Inl e \<Rightarrow> throw e | Inr out \<Rightarrow> op_completion out)"

text \<open>The parameter tree of the request sent.\<close>

definition sent_body :: "exn + 'p outcome \<Rightarrow> 'p option" where
  "sent_body x = map_option (\<lambda>q. body (req_XML q)) (sent_of x)"




text \<open>
  A runtime for the examples below: exact on the integers; of a number that is not an
  integer it prints one digit after the point (\<open>parseInt\<close> stops at the point).
\<close>

definition plain_runtime :: runtime where
  "plain_runtime =
     \<lparr>number_text = (\<lambda>x. if of_int \<lfloor>x\<rfloor> = x then show_int \<lfloor>x\<rfloor>
                          else (if x < 0 then ''-'' else []) @ show_nat (nat \<lfloor>\<bar>x\<bar>\<rfloor>) @ ''.5''),
      number_value = (\<lambda>n. Num (of_int n))\<rparr>"

text \<open>A configuration for the examples below, and the client the constructor builds from it.\<close>

definition sample_config :: jsval where
  "sample_config =
     JObj [(''server'', JStr ''http://production.shippingapis.com/ShippingAPI.dll''),
           (''userId'', JStr ''user'')]"

definition sample_client :: client where
  "sample_client =
     \<lparr>config = JObj [(''server'', JStr ''http://production.shippingapis.com/ShippingAPI.dll''),
                     (''userId'', JStr ''user''), (''ttl'', JNum (Num 100000))]\<rparr>"

text \<open>An address with no second street line, for the examples below.\<close>

definition sample_address :: jsval where
  "sample_address =
     JObj [(''street1'', JStr ''1600 Pennsylvania Ave''), (''city'', JStr ''WASHINGTON''),
           (''state'', JStr ''DC''), (''zip'', JStr ''20500'')]"

section \<open>Properties\<close>

subsection \<open>Property access and the branches of the response handling\<close>


lemma index_of_key_Error: "index_of_key ''Error'' = None"
  by (simp add: index_of_key_def is_digit_def)

lemma index_of_key_zero: "index_of_key ''0'' = Some 0"
  by (simp add: index_of_key_def)

lemma get_key_Error_absent:
  "get_key v k = Inr x \<Longrightarrow> \<not> has_key v ''Error'' \<Longrightarrow> get_key v ''Error'' = Inr JUndefined"
  by (cases v) (auto simp: index_of_key_Error split: option.splits)



lemma on_response_root_error:
  "answered r \<Longrightarrow> get_key (parsed r) ''Error'' = Inr e \<Longrightarrow> truthy e \<Longrightarrow>
   on_response api path callback r =
     callback (Err (USPSError (root_errMessage e) [e])) JUndefined"
  by (simp add: on_response_def on_parsed_def answered_def)

lemma on_response_walked:
  "answered r \<Longrightarrow> get_key (parsed r) ''Error'' = Inr e \<Longrightarrow> \<not> truthy e \<Longrightarrow>
   walkResult (parsed r) (split_dots path) = Inr n \<Longrightarrow> get_key n ''Error'' = Inr ne \<Longrightarrow>
   on_response api path callback r =
     (if truthy ne then callback (Err (USPSError (node_errMessage ne) [ne])) JUndefined
      else callback (Val JNull) n)"
  by (simp add: on_response_def on_parsed_def answered_def)

lemma root_errMessage_cases:
  "root_errMessage e = (case root_description e of Some s \<Rightarrow> JStr (trim s) | None \<Rightarrow> e)"
  by (auto simp: root_errMessage_def root_description_def and_then_def
      split: sum.splits jsval.splits)

lemma node_errMessage_cases:
  "node_errMessage e = (case node_description e of Some s \<Rightarrow> JStr (trim s) | None \<Rightarrow> e)"
  by (auto simp: node_errMessage_def node_description_def and_then_def
      split: sum.splits jsval.splits)

subsection \<open>A client built by the constructor\<close>

lemma map_of_set_entry: "map_of (set_entry k v kvs) = (map_of kvs)(k \<mapsto> v)"
  by (induction kvs) auto

lemma has_truthy_object:
  assumes "has_truthy cfg k" and "index_of_key k = None" and "k \<noteq> ''length''"
  shows "\<exists>kvs. cfg = JObj kvs"
  using assms by (cases cfg) (auto simp: has_truthy_def)

lemma has_truthy_has_key: "has_truthy (JObj kvs) k \<Longrightarrow> has_key (JObj kvs) k"
  by (auto simp: has_truthy_def split: option.splits)

lemma index_of_key_names:
  "index_of_key ''server'' = None" "index_of_key ''userId'' = None" "index_of_key ''ttl'' = None"
  by (simp_all add: index_of_key_def is_digit_def)

lemma usps_Inr_config:
  assumes "usps cfg = Inr self"
  shows "\<exists>kvs. cfg = JObj kvs"
    and "config self = (if \<not> has_truthy cfg ''ttl'' then set_key cfg ''ttl'' (JNum (Num 100000)) else cfg)"
proof -
  from assms have "has_truthy cfg ''server''"
    by (auto simp: usps_def split: if_splits)
  then show "\<exists>kvs. cfg = JObj kvs"
    using has_truthy_object [of cfg "''server''"] index_of_key_names by auto
  from assms show "config self =
      (if \<not> has_truthy cfg ''ttl'' then set_key cfg ''ttl'' (JNum (Num 100000)) else cfg)"
    by (auto simp: usps_def split: if_splits)
qed

lemma usps_Inr_object: "usps cfg = Inr self \<Longrightarrow> \<exists>kvs. config self = JObj kvs"
  using usps_Inr_config [of cfg self] by auto

lemma get_key_defined:
  "v \<noteq> JUndefined \<Longrightarrow> v \<noteq> JNull \<Longrightarrow> get_key v k = Inr (read_key v k)"
  by (cases v) (auto simp: read_key_def split: option.splits)

lemma get_key_undefined: "v = JUndefined \<or> v = JNull \<Longrightarrow> get_key v k = Inl TypeError"
  by auto

lemma callUSPS_sent:
  assumes "usps cfg = Inr self"
  shows "callUSPS api m p (config self) params h network =
      Inr (request_for api m (config self) params,
           on_response api p h (network (request_for api m (config self) params)))"
proof -
  obtain kvs where "config self = JObj kvs"
    using usps_Inr_object [OF assms] by auto
  then show ?thesis
    by (simp add: callUSPS_def request_opts_def request_for_def read_key_def and_then_def)
qed

lemma verify_params_cases:
  "verify_params a =
     (if a = JUndefined \<or> a = JNull then Inl TypeError
      else Inr (JObj [(''Address'', JObj
         [(''Address1'', js_or (read_key a ''street2'') (JStr [])),
          (''Address2'', read_key a ''street1''),
          (''City'', read_key a ''city''),
          (''State'', read_key a ''state''),
          (''Zip5'', read_key a ''zip''),
          (''Zip4'', JStr [])])]))"
  by (auto simp: verify_params_def and_then_def get_key_defined)


lemma verify_sent:
  assumes "usps cfg = Inr self"
  shows "verify self a callback network =
     (case verify_params a of
        Inl e \<Rightarrow> Inl e
      | Inr obj \<Rightarrow>
          Inr \<lparr>op_returned = RetThis self,
               op_sent = request_for ''Verify'' ''AddressValidateRequest'' (config self) obj,
               op_completion =
                 on_response ''Verify'' ''AddressValidateResponse.Address'' (verify_done callback)
                   (network (request_for ''Verify'' ''AddressValidateRequest'' (config self) obj))\<rparr>)"
  by (simp add: verify_def callUSPS_sent [OF assms] and_then_def split: sum.splits)


lemma cityStateLookup_sent:
  assumes "usps cfg = Inr self"
  shows "cityStateLookup self z callback network =
     Inr \<lparr>op_returned = RetUndefined,
          op_sent = request_for ''CityStateLookup'' ''CityStateLookupRequest'' (config self)
                      (cityStateLookup_params z),
          op_completion =
            on_response ''CityStateLookup'' ''CityStateLookupResponse.ZipCode''
              (cityStateLookup_done callback)
              (network (request_for ''CityStateLookup'' ''CityStateLookupRequest'' (config self)
                          (cityStateLookup_params z)))\<rparr>"
  by (simp add: cityStateLookup_def callUSPS_sent [OF assms] and_then_def)


lemma usps_sample: "usps sample_config = Inr sample_client"
  by (simp add: usps_def has_truthy_def sample_config_def sample_client_def)

subsection \<open>Decimal digits\<close>

















subsection \<open>The dotted path and the walk\<close>

lemma split_dots_not_Nil: "split_dots s \<noteq> []"
  by (induction s) (auto split: list.splits)

lemma join_dots_Cons:
  "ks \<noteq> [] \<Longrightarrow> join_dots ((c # k) # ks) = c # join_dots (k # ks)"
  by (cases ks) auto





lemma walkResult_first_key:
  "walkResult v (k # ks) = Inr n \<Longrightarrow> \<exists>x. get_key v k = Inr x"
  by (cases "get_key v k") auto

lemma element_node_Error:
  assumes "element_node n"
  shows "get_key n ''Error'' = Inr (read_key n ''Error'')"
    and "truthy (read_key n ''Error'') = has_key n ''Error''"
proof -
  show "get_key n ''Error'' = Inr (read_key n ''Error'')"
    using assms by (cases n) (auto simp: read_key_def index_of_key_Error)
  show "truthy (read_key n ''Error'') = has_key n ''Error''"
  proof (cases n)
    case (JObj kvs)
    show ?thesis
    proof (cases "map_of kvs ''Error''")
      case None
      with JObj show ?thesis by (simp add: read_key_def)
    next
      case (Some x)
      then have "(''Error'', x) \<in> set kvs" by (rule map_of_SomeD)
      with assms JObj have "is_cells x" by (auto simp: list_all_iff)
      then have "truthy x" by (cases x rule: is_cells.cases) auto
      with JObj Some show ?thesis by (simp add: read_key_def)
    qed
  next
    case (JStr s)
    then show ?thesis by (simp add: read_key_def index_of_key_Error)
  qed (use assms in auto)
qed

subsection \<open>C1: the root-level error\<close>

text \<open>
  C1, as stated, fails: a tree can hold a root-level \<open>Error\<close> key and yet yield no
  Domain Error. The document \<open><Error/>\<close> parses to an object whose \<open>Error\<close> entry is the
  empty string, which the test \<open>if (result.Error)\<close> does not take; the walk for the
  verify path then reads a property of \<open>undefined\<close> and throws.
\<close>

theorem root_error_key_counterexample:
  "has_key (JObj [(''Error'', JStr [])]) ''Error'' \<and>
   on_response ''Verify'' ''AddressValidateResponse.Address'' record_call
     \<lparr>req_err = JNull, parse_err = JNull, parsed = JObj [(''Error'', JStr [])]\<rparr>
   = ([], Some TypeError)"
  by (simp add: on_response_def on_parsed_def throw_def index_of_key_def is_digit_def)

text \<open>
  C1, amended: for every parsed tree whose root-level \<open>Error\<close> value is truthy (any
  object, any non-empty string) and every requested result path, the callback is called
  with a Domain Error built from that node. Its message argument is
  \<open>Error.Description[0]\<close> trimmed when that path leads to a string; otherwise it is the
  raw \<open>Error\<close> node, so that the message is that node stringified.
\<close>

theorem root_error_message:
  assumes "answered r"
    and "get_key (parsed r) ''Error'' = Inr e"
    and "truthy e"
    and "\<And>s. stringify (JStr s) = s"
  shows "on_response api path callback r =
           callback (Err (USPSError (root_errMessage e) [e])) JUndefined
       \<and> root_errMessage e = (case root_description e of Some s \<Rightarrow> JStr (trim s) | None \<Rightarrow> e)
       \<and> domain_message stringify (USPSError (root_errMessage e) [e]) =
           (case root_description e of Some s \<Rightarrow> trim s | None \<Rightarrow> stringify e)"
proof -
  have call: "on_response api path callback r =
      callback (Err (USPSError (root_errMessage e) [e])) JUndefined"
    using assms(1-3) by (rule on_response_root_error)
  have msg: "root_errMessage e = (case root_description e of Some s \<Rightarrow> JStr (trim s) | None \<Rightarrow> e)"
    by (rule root_errMessage_cases)
  have "domain_message stringify (USPSError (root_errMessage e) [e]) =
      (case root_description e of Some s \<Rightarrow> trim s | None \<Rightarrow> stringify e)"
    by (simp add: domain_message_def msg assms(4) split: option.splits)
  with call msg show ?thesis by simp
qed

text \<open>
  An instance: the description of the specification's example, and an error node with
  no description, which is passed on as it is.
\<close>

theorem root_error_message_witness:
  "on_response ''Verify'' ''AddressValidateResponse.Address'' record_call
     \<lparr>req_err = JNull, parse_err = JNull,
      parsed = JObj [(''Error'', JObj [(''Description'', JArr [JStr '' Bad input ''])])]\<rparr>
   = ([(Err (USPSError (JStr ''Bad input'') [JObj [(''Description'', JArr [JStr '' Bad input ''])]]),
        JUndefined)], None)
   \<and> domain_message (ToString plain_runtime)
       (USPSError (root_errMessage (JObj [(''Description'', JArr [JStr '' Bad input ''])]))
          [JObj [(''Description'', JArr [JStr '' Bad input ''])]])
     = ''Bad input''
   \<and> on_response ''RateV4'' ''RateV4Response'' record_call
     \<lparr>req_err = JNull, parse_err = JNull,
      parsed = JObj [(''Error'', JObj [(''Number'', JArr [JStr ''80040B1A''])])]\<rparr>
   = ([(Err (USPSError (JObj [(''Number'', JArr [JStr ''80040B1A''])])
                       [JObj [(''Number'', JArr [JStr ''80040B1A''])]]),
        JUndefined)], None)"
proof -
  let ?e = "JObj [(''Description'', JArr [JStr '' Bad input ''])]"
  let ?r = "\<lparr>req_err = JNull, parse_err = JNull, parsed = JObj [(''Error'', ?e)]\<rparr>"
  let ?f = "JObj [(''Number'', JArr [JStr ''80040B1A''])]"
  let ?q = "\<lparr>req_err = JNull, parse_err = JNull, parsed = JObj [(''Error'', ?f)]\<rparr>"
  have a: "answered ?r" "answered ?q" by (simp_all add: answered_def)
  have g: "get_key (parsed ?r) ''Error'' = Inr ?e" "get_key (parsed ?q) ''Error'' = Inr ?f"
    by simp_all
  have t: "truthy ?e" "truthy ?f" by simp_all
  have s: "\<And>s. ToString plain_runtime (JStr s) = s" by simp
  have d: "root_description ?e = Some '' Bad input ''"
    by (simp add: root_description_def first_of_def and_then_def index_of_key_def)
  have d': "root_description ?f = None"
    by (simp add: root_description_def first_of_def and_then_def)
  have tr: "trim '' Bad input '' = ''Bad input''"
    by (simp add: trim_def is_ws_def)
  from root_error_message [OF a(1) g(1) t(1) s, of "''Verify''" "''AddressValidateResponse.Address''"
      record_call]
  have one: "on_response ''Verify'' ''AddressValidateResponse.Address'' record_call ?r
      = ([(Err (USPSError (JStr ''Bad input'') [?e]), JUndefined)], None)
    \<and> domain_message (ToString plain_runtime) (USPSError (root_errMessage ?e) [?e]) = ''Bad input''"
    by (simp add: d tr record_call_def domain_message_def)
  from root_error_message [OF a(2) g(2) t(2) s, of "''RateV4''" "''RateV4Response''" record_call]
  have two: "on_response ''RateV4'' ''RateV4Response'' record_call ?q
      = ([(Err (USPSError ?f [?f]), JUndefined)], None)"
    by (simp add: d' record_call_def)
  from one two show ?thesis by (intro conjI) simp_all
qed

subsection \<open>C2: the walk along the dotted path\<close>



subsection \<open>C3: the root-level error comes first\<close>

text \<open>
  C3, as stated, fails: on the tree of \<open><Error/>\<close>, which has a root-level \<open>Error\<close> key, the
  path walk is consulted. For the path of the city and state lookup the walk throws, and
  the operation ends with a TypeError and no call of the callback; for the path
  \<open>Error\<close> the empty string the walk reaches is delivered as a success.
\<close>

theorem root_error_precedence_counterexample:
  "has_key (JObj [(''Error'', JStr [])]) ''Error'' \<and>
   walkResult (JObj [(''Error'', JStr [])]) (split_dots ''CityStateLookupResponse.ZipCode'')
     = Inl TypeError \<and>
   returned (cityStateLookup sample_client (JStr ''80202'') record_call
     (\<lambda>q. \<lparr>req_err = JNull, parse_err = JNull, parsed = JObj [(''Error'', JStr [])]\<rparr>))
     = Some RetUndefined \<and>
   completion_of (cityStateLookup sample_client (JStr ''80202'') record_call
     (\<lambda>q. \<lparr>req_err = JNull, parse_err = JNull, parsed = JObj [(''Error'', JStr [])]\<rparr>))
     = ([], Some TypeError) \<and>
   on_response ''CityStateLookup'' ''Error'' record_call
     \<lparr>req_err = JNull, parse_err = JNull, parsed = JObj [(''Error'', JStr [])]\<rparr>
     = ([(Val JNull, JStr [])], None)"
  by (simp add: cityStateLookup_sent [OF usps_sample] returned_def completion_of_def
      on_response_def on_parsed_def throw_def record_call_def index_of_key_def is_digit_def)

text \<open>
  C3, amended: whenever the root-level \<open>Error\<close> value of the parsed tree is truthy, the
  outcome is the root-level Domain Error and nothing else of the response decides it:
  two responses with the same truthy root-level \<open>Error\<close> value complete alike, whatever the
  operation, the requested paths and the rest of the two trees are.
\<close>

theorem root_error_precedence:
  assumes "answered r" and "answered r'"
    and "get_key (parsed r) ''Error'' = Inr e"
    and "get_key (parsed r') ''Error'' = Inr e"
    and "truthy e"
  shows "on_response api path callback r =
           on_response api' path' callback r'
       \<and> on_response api path callback r =
           callback (Err (USPSError (root_errMessage e) [e])) JUndefined"
proof -
  have "on_response api path callback r =
      callback (Err (USPSError (root_errMessage e) [e])) JUndefined"
    using assms(1,3,5) by (rule on_response_root_error)
  moreover have "on_response api' path' callback r' =
      callback (Err (USPSError (root_errMessage e) [e])) JUndefined"
    using assms(2,4,5) by (rule on_response_root_error)
  ultimately show ?thesis by simp
qed

text \<open>
  An instance: one tree whose result node carries an error of its own, one tree on which
  the walk would throw; both give the root-level error.
\<close>

theorem root_error_precedence_witness:
  "walkResult (JObj [(''Error'', JObj [(''Description'', JArr [JStr ''no'']) ])])
     (split_dots ''A.B'') = Inl TypeError
   \<and> on_response ''Verify'' ''R'' record_call
       \<lparr>req_err = JNull, parse_err = JNull,
        parsed = JObj [(''Error'', JObj [(''Description'', JArr [JStr ''no''])]),
                       (''R'', JObj [(''Error'', JArr [JObj [(''Description'', JArr [JStr ''inner''])]])])]\<rparr>
     = on_response ''RateV4'' ''A.B'' record_call
       \<lparr>req_err = JNull, parse_err = JNull,
        parsed = JObj [(''Error'', JObj [(''Description'', JArr [JStr ''no''])])]\<rparr>
   \<and> on_response ''Verify'' ''R'' record_call
       \<lparr>req_err = JNull, parse_err = JNull,
        parsed = JObj [(''Error'', JObj [(''Description'', JArr [JStr ''no''])]),
                       (''R'', JObj [(''Error'', JArr [JObj [(''Description'', JArr [JStr ''inner''])]])])]\<rparr>
     = ([(Err (USPSError (JStr ''no'') [JObj [(''Description'', JArr [JStr ''no''])]]), JUndefined)], None)"
proof -
  let ?e = "JObj [(''Description'', JArr [JStr ''no''])]"
  let ?r = "\<lparr>req_err = JNull, parse_err = JNull,
        parsed = JObj [(''Error'', ?e),
                       (''R'', JObj [(''Error'', JArr [JObj [(''Description'', JArr [JStr ''inner''])]])])]\<rparr>"
  let ?r' = "\<lparr>req_err = JNull, parse_err = JNull, parsed = JObj [(''Error'', ?e)]\<rparr>"
  have a: "answered ?r" and a': "answered ?r'" by (simp_all add: answered_def)
  have g: "get_key (parsed ?r) ''Error'' = Inr ?e"
    and g': "get_key (parsed ?r') ''Error'' = Inr ?e" by simp_all
  have t: "truthy ?e" by simp
  have m: "root_errMessage ?e = JStr ''no''"
    by (simp add: root_errMessage_def first_of_def and_then_def index_of_key_def
        trim_def is_ws_def)
  have w: "walkResult (JObj [(''Error'', ?e)]) (split_dots ''A.B'') = Inl TypeError"
    by simp
  from root_error_precedence [OF a a' g g' t, of "''Verify''" "''R''" record_call
      "''RateV4''" "''A.B''"]
  show ?thesis using w by (auto simp: m record_call_def)
qed

subsection \<open>C4: the node-level error\<close>

text \<open>
  C4: for every parsed tree with no root-level \<open>Error\<close> key, when the walk along the
  dotted path reaches an element node: if that node contains an \<open>Error\<close> key, the callback
  receives a node-level Domain Error, whose message argument is \<open>Error[0].Description[0]\<close>
  trimmed when that path leads to a string and the raw \<open>Error\<close> entry otherwise, so that
  the message is the description or else that entry stringified; if the node contains
  no \<open>Error\<close> key, the callback receives \<open>null\<close> and the node itself.
\<close>

theorem node_error_or_success:
  assumes "answered r"
    and "\<not> has_key (parsed r) ''Error''"
    and "walkResult (parsed r) (split_dots path) = Inr n"
    and "element_node n"
    and "\<And>s. stringify (JStr s) = s"
  shows "on_response api path callback r =
           (if has_key n ''Error''
            then callback (Err (USPSError (node_errMessage (read_key n ''Error''))
                                  [read_key n ''Error''])) JUndefined
            else callback (Val JNull) n)
       \<and> node_errMessage (read_key n ''Error'') =
           (case node_description (read_key n ''Error'') of
              Some s \<Rightarrow> JStr (trim s) | None \<Rightarrow> read_key n ''Error'')
       \<and> domain_message stringify
            (USPSError (node_errMessage (read_key n ''Error'')) [read_key n ''Error'']) =
           (case node_description (read_key n ''Error'') of
              Some s \<Rightarrow> trim s | None \<Rightarrow> stringify (read_key n ''Error''))"
proof -
  let ?e = "read_key n ''Error''"
  obtain k ks where ks: "split_dots path = k # ks"
    using split_dots_not_Nil [of path] by (cases "split_dots path") auto
  from assms(3) ks obtain x where "get_key (parsed r) k = Inr x"
    using walkResult_first_key [of "parsed r" k ks n] by auto
  then have root: "get_key (parsed r) ''Error'' = Inr JUndefined"
    using assms(2) by (rule get_key_Error_absent)
  have nt: "\<not> truthy JUndefined" by simp
  have call: "on_response api path callback r =
           (if has_key n ''Error''
            then callback (Err (USPSError (node_errMessage ?e) [?e])) JUndefined
            else callback (Val JNull) n)"
    using on_response_walked [OF assms(1) root nt assms(3) element_node_Error(1) [OF assms(4)],
        of api callback]
    by (simp add: element_node_Error(2) [OF assms(4)])
  have msg: "node_errMessage ?e = (case node_description ?e of Some s \<Rightarrow> JStr (trim s) | None \<Rightarrow> ?e)"
    by (rule node_errMessage_cases)
  have "domain_message stringify (USPSError (node_errMessage ?e) [?e]) =
      (case node_description ?e of Some s \<Rightarrow> trim s | None \<Rightarrow> stringify ?e)"
    by (simp add: domain_message_def msg assms(5) split: option.splits)
  with call msg show ?thesis by (intro conjI)
qed

text \<open>
  An instance: an address that the service does not find, with the error inside the
  result node, and an address that it finds.
\<close>

theorem node_error_or_success_witness:
  "on_response ''Verify'' ''AddressValidateResponse.Address'' record_call
     \<lparr>req_err = JNull, parse_err = JNull,
      parsed = JObj [(''AddressValidateResponse'', JObj [(''Address'', JArr [JObj
        [(''Error'', JArr [JObj [(''Number'', JArr [JStr ''-2147219401'']),
                                 (''Description'', JArr [JStr ''Address Not Found.  ''])]])]])])]\<rparr>
   = ([(Err (USPSError (JStr ''Address Not Found.'')
         [JArr [JObj [(''Number'', JArr [JStr ''-2147219401'']),
                      (''Description'', JArr [JStr ''Address Not Found.  ''])]]]), JUndefined)], None)
   \<and> on_response ''Verify'' ''AddressValidateResponse.Address'' record_call
     \<lparr>req_err = JNull, parse_err = JNull,
      parsed = JObj [(''AddressValidateResponse'', JObj [(''Address'', JArr [JObj
        [(''City'', JArr [JStr ''DENVER''])]])])]\<rparr>
   = ([(Val JNull, JObj [(''City'', JArr [JStr ''DENVER''])])], None)"
proof -
  let ?e = "JArr [JObj [(''Number'', JArr [JStr ''-2147219401'']),
                      (''Description'', JArr [JStr ''Address Not Found.  ''])]]"
  let ?n = "JObj [(''Error'', ?e)]"
  let ?r = "\<lparr>req_err = JNull, parse_err = JNull,
      parsed = JObj [(''AddressValidateResponse'', JObj [(''Address'', JArr [?n])])]\<rparr>"
  let ?m = "JObj [(''City'', JArr [JStr ''DENVER''])]"
  let ?q = "\<lparr>req_err = JNull, parse_err = JNull,
      parsed = JObj [(''AddressValidateResponse'', JObj [(''Address'', JArr [?m])])]\<rparr>"
  have a: "answered ?r" "answered ?q" by (simp_all add: answered_def)
  have k: "\<not> has_key (parsed ?r) ''Error''" "\<not> has_key (parsed ?q) ''Error''" by simp_all
  have w: "walkResult (parsed ?r) (split_dots ''AddressValidateResponse.Address'') = Inr ?n"
    "walkResult (parsed ?q) (split_dots ''AddressValidateResponse.Address'') = Inr ?m"
    by simp_all
  have el: "element_node ?n" "element_node ?m" by simp_all
  have s: "\<And>s. ToString plain_runtime (JStr s) = s" by simp
  have d: "node_description ?e = Some ''Address Not Found.  ''"
    by (simp add: node_description_def first_of_def and_then_def index_of_key_def)
  have tr: "trim ''Address Not Found.  '' = ''Address Not Found.''"
    by (simp add: trim_def is_ws_def)
  have rk: "read_key ?n ''Error'' = ?e" by (simp add: read_key_def)
  from node_error_or_success [OF a(1) k(1) w(1) el(1) s, of "''Verify''" record_call]
  have one: "on_response ''Verify'' ''AddressValidateResponse.Address'' record_call ?r
     = ([(Err (USPSError (JStr ''Address Not Found.'') [?e]), JUndefined)], None)"
    by (simp add: rk d tr record_call_def)
  from node_error_or_success [OF a(2) k(2) w(2) el(2) s, of "''Verify''" record_call]
  have two: "on_response ''Verify'' ''AddressValidateResponse.Address'' record_call ?q = ([(Val JNull, ?m)], None)"
    by (simp add: record_call_def)
  from one two show ?thesis by (intro conjI)
qed

subsection \<open>C5: the round trip of verify\<close>

lemma first_of_cell: "map_of kvs k = Some (JArr [x]) \<Longrightarrow> first_of (JObj kvs) k = Inr x"
  by (simp add: first_of_def and_then_def index_of_key_zero)

text \<open>
  C5: for every valid input address (its street1, city, state and zip are strings) with no
  street2, \<open>verify\<close>, of a client built by the constructor, sends a request whose
  parameter tree has \<open>Address1 = ''\<close> and \<open>Address2 = street1\<close>; and when the network
  echoes the tree it was sent, the callback receives \<open>null\<close> and a record whose
  \<open>street1\<close> is the input street1 and whose \<open>street2\<close> is \<open>''\<close>, with the city, zip
  and state of the input.
\<close>

theorem verify_roundtrip:
  assumes "usps cfg = Inr self"
    and "get_key a ''street1'' = Inr (JStr s1)"
    and "get_key a ''city'' = Inr (JStr c)"
    and "get_key a ''state'' = Inr (JStr st)"
    and "get_key a ''zip'' = Inr (JStr z)"
    and "\<not> truthy (read_key a ''street2'')"
  shows "sent_body (verify self a callback (echo_network rt ''AddressValidateResponse'')) =
           Some (JObj [(''Address'', JObj
             [(''Address1'', JStr []), (''Address2'', JStr s1), (''City'', JStr c),
              (''State'', JStr st), (''Zip5'', JStr z), (''Zip4'', JStr [])])])
       \<and> returned (verify self a callback (echo_network rt ''AddressValidateResponse'')) =
           Some (RetThis self)
       \<and> completion_of (verify self a callback (echo_network rt ''AddressValidateResponse'')) =
           callback (Val JNull)
             (JObj [(''street1'', JStr s1), (''street2'', JStr []), (''city'', JStr c),
                    (''zip'', JStr z), (''state'', JStr st)])"
proof -
  let ?tree = "JObj [(''Address'', JObj
             [(''Address1'', JStr []), (''Address2'', JStr s1), (''City'', JStr c),
              (''State'', JStr st), (''Zip5'', JStr z), (''Zip4'', JStr [])])]"
  let ?node = "JObj [(''Address1'', JArr [JStr []]), (''Address2'', JArr [JStr s1]),
      (''City'', JArr [JStr c]), (''State'', JArr [JStr st]), (''Zip5'', JArr [JStr z]),
      (''Zip4'', JArr [JStr []])]"
  let ?q = "request_for ''Verify'' ''AddressValidateRequest'' (config self) ?tree"
  let ?r = "echo_network rt ''AddressValidateResponse'' ?q"
  from assms(2) have def: "a \<noteq> JUndefined" "a \<noteq> JNull" by auto
  have fields: "read_key a ''street1'' = JStr s1" "read_key a ''city'' = JStr c"
    "read_key a ''state'' = JStr st" "read_key a ''zip'' = JStr z"
    using assms(2-5) by (simp_all add: read_key_def)
  have params: "verify_params a = Inr ?tree"
    using def assms(6) by (simp add: verify_params_cases fields js_or_def)
  have a: "answered ?r" by (simp add: echo_network_def answered_def)
  have tree: "parsed ?r = JObj [(''AddressValidateResponse'', JObj [(''Address'', JArr [?node])])]"
    by (simp add: echo_network_def request_for_def)
  have root: "get_key (parsed ?r) ''Error'' = Inr JUndefined"
    by (simp add: tree)
  have nt: "\<not> truthy JUndefined" by simp
  have walk: "walkResult (parsed ?r) (split_dots ''AddressValidateResponse.Address'') = Inr ?node"
    by (simp add: tree)
  have node: "get_key ?node ''Error'' = Inr JUndefined" by simp
  have shape: "verify_reshape ?node =
      Inr (JObj [(''street1'', JStr s1), (''street2'', JStr []), (''city'', JStr c),
                 (''zip'', JStr z), (''state'', JStr st)])"
    by (simp add: verify_reshape_def first_of_cell and_then_def index_of_key_zero)
  have handled: "on_response ''Verify'' ''AddressValidateResponse.Address'' (verify_done callback) ?r =
      callback (Val JNull)
        (JObj [(''street1'', JStr s1), (''street2'', JStr []), (''city'', JStr c),
               (''zip'', JStr z), (''state'', JStr st)])"
    by (simp add: on_response_walked [OF a root nt walk node] verify_done_def shape)
  show ?thesis
    by (simp add: verify_sent [OF assms(1)] params sent_body_def sent_of_def returned_def
        completion_of_def handled)
       (simp add: request_for_def)
qed

text \<open>An instance: the sample address, sent by the sample client.\<close>

theorem verify_roundtrip_witness:
  "sent_body (verify sample_client sample_address record_call
       (echo_network plain_runtime ''AddressValidateResponse''))
   = Some (JObj [(''Address'', JObj
       [(''Address1'', JStr []), (''Address2'', JStr ''1600 Pennsylvania Ave''),
        (''City'', JStr ''WASHINGTON''), (''State'', JStr ''DC''), (''Zip5'', JStr ''20500''),
        (''Zip4'', JStr [])])])
   \<and> returned (verify sample_client sample_address record_call
       (echo_network plain_runtime ''AddressValidateResponse''))
     = Some (RetThis sample_client)
   \<and> completion_of (verify sample_client sample_address record_call
       (echo_network plain_runtime ''AddressValidateResponse''))
     = ([(Val JNull,
          JObj [(''street1'', JStr ''1600 Pennsylvania Ave''), (''street2'', JStr []),
                (''city'', JStr ''WASHINGTON''), (''zip'', JStr ''20500''),
                (''state'', JStr ''DC'')])], None)"
proof -
  have h: "get_key sample_address ''street1'' = Inr (JStr ''1600 Pennsylvania Ave'')"
    "get_key sample_address ''city'' = Inr (JStr ''WASHINGTON'')"
    "get_key sample_address ''state'' = Inr (JStr ''DC'')"
    "get_key sample_address ''zip'' = Inr (JStr ''20500'')"
    by (simp_all add: sample_address_def)
  have n: "\<not> truthy (read_key sample_address ''street2'')"
    by (simp add: sample_address_def read_key_def)
  from verify_roundtrip [OF usps_sample h n, of record_call plain_runtime]
  show ?thesis unfolding record_call_def .
qed

subsection \<open>C6: the weight of a rate request\<close>



subsection \<open>C7: construction\<close>

text \<open>
  C7, as stated, fails in the direction from failure to absence: a configuration that
  supplies both the server URL and the userId is refused when one of them is not truthy,
  here the empty string.
\<close>

theorem construction_counterexample:
  "has_key (JObj [(''server'', JStr []), (''userId'', JStr ''user'')]) ''server'' \<and>
   has_key (JObj [(''server'', JStr []), (''userId'', JStr ''user'')]) ''userId'' \<and>
   usps (JObj [(''server'', JStr []), (''userId'', JStr ''user'')])
     = Inl ''Error: must pass usps server url and userId''"
  by (simp add: usps_def has_truthy_def)

text \<open>
  C7, amended: construction fails, at once and before any call, if and only if the
  configuration, its server URL or its userId is not truthy, that is, absent or a value
  such as the empty string, 0, \<open>null\<close> or \<open>false\<close>; in particular it fails whenever the
  server URL or the userId is missing. When construction succeeds, the configuration is
  an object that keeps its server URL and userId; its timeout is 100000 when none (or
  none that is truthy) was supplied, and the configuration is unchanged otherwise.
\<close>

theorem construction_fails_iff:
  "(usps cfg = Inl ''Error: must pass usps server url and userId'')
     = (\<not> (truthy cfg \<and> has_truthy cfg ''server'' \<and> has_truthy cfg ''userId''))
   \<and> (\<not> has_key cfg ''server'' \<or> \<not> has_key cfg ''userId''
        \<longrightarrow> usps cfg = Inl ''Error: must pass usps server url and userId'')
   \<and> (\<forall>c. usps cfg = Inr c \<longrightarrow>
        (\<exists>kvs. config c = JObj kvs)
        \<and> get_key (config c) ''server'' = get_key cfg ''server''
        \<and> get_key (config c) ''userId'' = get_key cfg ''userId''
        \<and> (\<not> has_truthy cfg ''ttl'' \<longrightarrow> get_key (config c) ''ttl'' = Inr (JNum (Num 100000)))
        \<and> (has_truthy cfg ''ttl'' \<longrightarrow> config c = cfg))"
proof -
  have fails: "(usps cfg = Inl ''Error: must pass usps server url and userId'')
     = (\<not> (truthy cfg \<and> has_truthy cfg ''server'' \<and> has_truthy cfg ''userId''))"
    by (simp add: usps_def)
  have missing: "\<not> has_key cfg ''server'' \<or> \<not> has_key cfg ''userId''
      \<longrightarrow> usps cfg = Inl ''Error: must pass usps server url and userId''"
  proof
    assume m: "\<not> has_key cfg ''server'' \<or> \<not> has_key cfg ''userId''"
    have "\<not> (has_truthy cfg ''server'' \<and> has_truthy cfg ''userId'')"
    proof
      assume t: "has_truthy cfg ''server'' \<and> has_truthy cfg ''userId''"
      then obtain kvs where "cfg = JObj kvs"
        using has_truthy_object [of cfg "''server''"] index_of_key_names by auto
      with t have "has_key cfg ''server'' \<and> has_key cfg ''userId''"
        using has_truthy_has_key by blast
      with m show False by simp
    qed
    with fails show "usps cfg = Inl ''Error: must pass usps server url and userId''" by blast
  qed
  have ok: "\<forall>c. usps cfg = Inr c \<longrightarrow>
        (\<exists>kvs. config c = JObj kvs)
        \<and> get_key (config c) ''server'' = get_key cfg ''server''
        \<and> get_key (config c) ''userId'' = get_key cfg ''userId''
        \<and> (\<not> has_truthy cfg ''ttl'' \<longrightarrow> get_key (config c) ''ttl'' = Inr (JNum (Num 100000)))
        \<and> (has_truthy cfg ''ttl'' \<longrightarrow> config c = cfg)"
  proof (intro allI impI)
    fix c assume c: "usps cfg = Inr c"
    then obtain kvs where kvs: "cfg = JObj kvs"
      using usps_Inr_config(1) by blast
    from c have cc: "config c =
        (if \<not> has_truthy cfg ''ttl'' then set_key cfg ''ttl'' (JNum (Num 100000)) else cfg)"
      by (rule usps_Inr_config(2))
    show "(\<exists>kvs. config c = JObj kvs)
        \<and> get_key (config c) ''server'' = get_key cfg ''server''
        \<and> get_key (config c) ''userId'' = get_key cfg ''userId''
        \<and> (\<not> has_truthy cfg ''ttl'' \<longrightarrow> get_key (config c) ''ttl'' = Inr (JNum (Num 100000)))
        \<and> (has_truthy cfg ''ttl'' \<longrightarrow> config c = cfg)"
      by (simp add: cc kvs map_of_set_entry)
  qed
  from fails missing ok show ?thesis by blast
qed

theorem construction_fails_iff_witness:
  "usps (JObj [(''server'', JStr ''http://production.shippingapis.com/ShippingAPI.dll''),
               (''userId'', JStr ''user'')])
     = Inr \<lparr>config = JObj [(''server'', JStr ''http://production.shippingapis.com/ShippingAPI.dll''),
                           (''userId'', JStr ''user''), (''ttl'', JNum (Num 100000))]\<rparr>
   \<and> get_key (JObj [(''server'', JStr ''http://production.shippingapis.com/ShippingAPI.dll''),
                    (''userId'', JStr ''user''), (''ttl'', JNum (Num 100000))]) ''ttl'' = Inr (JNum (Num 100000))
   \<and> usps (JObj [(''server'', JStr ''http://production.shippingapis.com/ShippingAPI.dll'')])
     = Inl ''Error: must pass usps server url and userId''
   \<and> usps JUndefined = Inl ''Error: must pass usps server url and userId''"
proof -
  let ?cfg = "JObj [(''server'', JStr ''http://production.shippingapis.com/ShippingAPI.dll''),
               (''userId'', JStr ''user'')]"
  let ?c = "\<lparr>config = JObj [(''server'', JStr ''http://production.shippingapis.com/ShippingAPI.dll''),
                           (''userId'', JStr ''user''), (''ttl'', JNum (Num 100000))]\<rparr>"
  have u: "usps ?cfg = Inr ?c" by (simp add: usps_def has_truthy_def)
  have nt: "\<not> has_truthy ?cfg ''ttl''" by (simp add: has_truthy_def)
  have nk: "\<not> has_key (JObj [(''server'', JStr ''http://production.shippingapis.com/ShippingAPI.dll'')]) ''userId''"
    by simp
  have nu: "\<not> has_key JUndefined ''server''" by simp
  from construction_fails_iff [of ?cfg] u nt
  have "get_key (config ?c) ''ttl'' = Inr (JNum (Num 100000))" by blast
  moreover from construction_fails_iff
    [of "JObj [(''server'', JStr ''http://production.shippingapis.com/ShippingAPI.dll'')]"] nk
  have "usps (JObj [(''server'', JStr ''http://production.shippingapis.com/ShippingAPI.dll'')])
     = Inl ''Error: must pass usps server url and userId''" by blast
  moreover from construction_fails_iff [of JUndefined] nu
  have "usps JUndefined = Inl ''Error: must pass usps server url and userId''" by blast
  ultimately show ?thesis using u by simp
qed

subsection \<open>C8: the city and state lookup on the Denver response\<close>

text \<open>
  C8: for the successful response tree
  \<open>CityStateLookupResponse.ZipCode = {City:["DENVER"], State:["CO"], Zip5:["80202"]}\<close>
  the callback of the city and state lookup, of a client built by the constructor,
  receives \<open>null\<close> and exactly the flat record \<open>{city:"DENVER", state:"CO", zip:"80202"}\<close>.
  The same holds when \<open>ZipCode\<close> is the singleton sequence of that node, as the parser
  presents it.
\<close>

theorem cityStateLookup_denver:
  assumes "usps cfg = Inr self"
  shows "returned (cityStateLookup self z callback
     (\<lambda>q. \<lparr>req_err = JNull, parse_err = JNull,
      parsed = JObj [(''CityStateLookupResponse'', JObj [(''ZipCode'',
        JObj [(''City'', JArr [JStr ''DENVER'']), (''State'', JArr [JStr ''CO'']),
              (''Zip5'', JArr [JStr ''80202''])])])]\<rparr>))
   = Some RetUndefined
   \<and> completion_of (cityStateLookup self z callback
     (\<lambda>q. \<lparr>req_err = JNull, parse_err = JNull,
      parsed = JObj [(''CityStateLookupResponse'', JObj [(''ZipCode'',
        JObj [(''City'', JArr [JStr ''DENVER'']), (''State'', JArr [JStr ''CO'']),
              (''Zip5'', JArr [JStr ''80202''])])])]\<rparr>))
   = callback (Val JNull)
        (JObj [(''city'', JStr ''DENVER''), (''state'', JStr ''CO''), (''zip'', JStr ''80202'')])
   \<and> returned (cityStateLookup self z callback
     (\<lambda>q. \<lparr>req_err = JNull, parse_err = JNull,
      parsed = JObj [(''CityStateLookupResponse'', JObj [(''ZipCode'',
        JArr [JObj [(''City'', JArr [JStr ''DENVER'']), (''State'', JArr [JStr ''CO'']),
              (''Zip5'', JArr [JStr ''80202''])]])])]\<rparr>))
   = Some RetUndefined
   \<and> completion_of (cityStateLookup self z callback
     (\<lambda>q. \<lparr>req_err = JNull, parse_err = JNull,
      parsed = JObj [(''CityStateLookupResponse'', JObj [(''ZipCode'',
        JArr [JObj [(''City'', JArr [JStr ''DENVER'']), (''State'', JArr [JStr ''CO'']),
              (''Zip5'', JArr [JStr ''80202''])]])])]\<rparr>))
   = callback (Val JNull)
        (JObj [(''city'', JStr ''DENVER''), (''state'', JStr ''CO''), (''zip'', JStr ''80202'')])"
  by (simp add: cityStateLookup_sent [OF assms] returned_def completion_of_def
      on_response_def on_parsed_def cityStateLookup_done_def
      cityStateLookup_reshape_def first_of_def and_then_def index_of_key_def is_digit_def)

theorem cityStateLookup_denver_witness:
  "completion_of (cityStateLookup sample_client (JStr ''80202'') record_call
     (\<lambda>q. \<lparr>req_err = JNull, parse_err = JNull,
      parsed = JObj [(''CityStateLookupResponse'', JObj [(''ZipCode'',
        JObj [(''City'', JArr [JStr ''DENVER'']), (''State'', JArr [JStr ''CO'']),
              (''Zip5'', JArr [JStr ''80202''])])])]\<rparr>))
   = ([(Val JNull,
        JObj [(''city'', JStr ''DENVER''), (''state'', JStr ''CO''), (''zip'', JStr ''80202'')])],
      None)"
  using cityStateLookup_denver [OF usps_sample, of "JStr ''80202''" record_call]
  by (simp add: record_call_def)

subsection \<open>C9: how often the callback is called\<close>











subsection \<open>C10: what the operations return\<close>




end
